theory Spec2Isabelle
  imports Complex_Main "HOL-Library.Stream"
begin

section \<open>Numbers\<close>

text \<open>
  Every number of the program is a JavaScript Number, an IEEE 754 double. The embedding
  reads a finite double as the real it denotes. An arithmetic operation of the source is
  the exact operation followed by \<open>double_round\<close>, rounding to the nearest double (53
  significant bits, ties to the even significand), and a decimal literal is the double
  nearest to it. Comparisons, \<open>Math.min\<close>, \<open>Math.max\<close>, \<open>Math.floor\<close>, \<open>Math.ceil\<close> and
  \<open>Math.round\<close> (half rounds up) are exact on doubles.

  Three groups of operations are read without rounding, as the exact operation on the
  reals. In \<open>Resources.js\<close>: the sum \<open>current + change\<close> of \<open>_modifyResource\<close>, the three
  maxima of \<open>calculateMaxValues\<close> and the fatigue cost \<open>amount * 0.1\<close> of \<open>useStamina\<close>. In
  \<open>BaseStats.js\<close> and \<open>Attributes.js\<close>: the sum \<open>stat + amount\<close> of \<open>increaseStat\<close> and the
  decrement of \<open>allocateStatPoint\<close>. In \<open>CombatStats.js\<close>: the two crit-damage formulas and
  the tier multipliers derived from them. Sums, differences and products of integers are
  exact in doubles while the result is below \<open>2^53\<close>, so on such values (the defaults
  are integers) the first two groups are what the code computes.

  Overflow to an infinity, subnormal results, \<open>NaN\<close> and a division by zero (which in
  the source needs a stat equal to the negated constant of its curve, or two equal tier
  thresholds) are outside the embedding.
\<close>

definition round_even :: "real \<Rightarrow> int" where
  "round_even y =
     (let f = \<lfloor>y\<rfloor>; d = y - of_int f
      in if d < 1 / 2 then f else if 1 / 2 < d then f + 1
         else if even f then f else f + 1)"

text \<open>The exponent \<open>e\<close> with \<open>2^e \<le> |x| < 2^(e+1)\<close>; a double of this size is a multiple of \<open>2^(e-52)\<close>.\<close>

definition binade :: "real \<Rightarrow> int" where
  "binade x = \<lfloor>log 2 \<bar>x\<bar>\<rfloor>"

definition double_round :: "real \<Rightarrow> real" where
  "double_round x =
     (if x = 0 then 0
      else of_int (round_even (x / 2 powi (binade x - 52))) * 2 powi (binade x - 52))"

definition add_d :: "real \<Rightarrow> real \<Rightarrow> real" where
  "add_d x y = double_round (x + y)"

definition sub_d :: "real \<Rightarrow> real \<Rightarrow> real" where
  "sub_d x y = double_round (x - y)"

definition mul_d :: "real \<Rightarrow> real \<Rightarrow> real" where
  "mul_d x y = double_round (x * y)"

definition div_d :: "real \<Rightarrow> real \<Rightarrow> real" where
  "div_d x y = double_round (x / y)"

definition Math_floor :: "real \<Rightarrow> real" where
  "Math_floor x = of_int \<lfloor>x\<rfloor>"

definition Math_ceil :: "real \<Rightarrow> real" where
  "Math_ceil x = of_int \<lceil>x\<rceil>"


text \<open>A thrown \<open>Error\<close>, with its message.\<close>

datatype error = Error string

section \<open>BaseStats.js\<close>

definition StatKeys :: "string list" where
  "StatKeys = [''hp'', ''ki'', ''sta'', ''str'', ''vit'', ''tec'', ''wis'', ''aura'', ''agi'']"

text \<open>The nine own properties of a \<open>CharacterBaseStats\<close> object, named as in \<open>StatKeys\<close>.\<close>

record CharacterBaseStats =
  stat_hp :: real
  stat_ki :: real
  stat_sta :: real
  stat_str :: real
  stat_vit :: real
  stat_tec :: real
  stat_wis :: real
  stat_aura :: real
  stat_agi :: real

text \<open>The constructor's destructured argument: an absent field takes its default.\<close>

record BaseStatsConfig =
  cfg_hp :: "real option"
  cfg_ki :: "real option"
  cfg_sta :: "real option"
  cfg_str :: "real option"
  cfg_vit :: "real option"
  cfg_tec :: "real option"
  cfg_wis :: "real option"
  cfg_aura :: "real option"
  cfg_agi :: "real option"

definition dflt :: "'a \<Rightarrow> 'a option \<Rightarrow> 'a" where
  "dflt d v = (case v of None \<Rightarrow> d | Some x \<Rightarrow> x)"

definition CharacterBaseStats_new :: "BaseStatsConfig \<Rightarrow> CharacterBaseStats" where
  "CharacterBaseStats_new cfg =
     \<lparr>stat_hp = dflt 100 (cfg_hp cfg), stat_ki = dflt 50 (cfg_ki cfg), stat_sta = dflt 75 (cfg_sta cfg),
      stat_str = dflt 10 (cfg_str cfg), stat_vit = dflt 10 (cfg_vit cfg), stat_tec = dflt 10 (cfg_tec cfg),
      stat_wis = dflt 10 (cfg_wis cfg), stat_aura = dflt 10 (cfg_aura cfg), stat_agi = dflt 10 (cfg_agi cfg)\<rparr>"

definition getStat :: "CharacterBaseStats \<Rightarrow> string \<Rightarrow> real" where
  "getStat s k =
     (if k = ''hp'' then stat_hp s else if k = ''ki'' then stat_ki s else if k = ''sta'' then stat_sta s
      else if k = ''str'' then stat_str s else if k = ''vit'' then stat_vit s
      else if k = ''tec'' then stat_tec s else if k = ''wis'' then stat_wis s
      else if k = ''aura'' then stat_aura s else if k = ''agi'' then stat_agi s
      else 0)"

text \<open>\<open>this[statKey] += amount\<close> for a key of \<open>StatKeys\<close>.\<close>

definition addToStat :: "CharacterBaseStats \<Rightarrow> string \<Rightarrow> real \<Rightarrow> CharacterBaseStats" where
  "addToStat s k amount =
     (if k = ''hp'' then s\<lparr>stat_hp := stat_hp s + amount\<rparr>
      else if k = ''ki'' then s\<lparr>stat_ki := stat_ki s + amount\<rparr>
      else if k = ''sta'' then s\<lparr>stat_sta := stat_sta s + amount\<rparr>
      else if k = ''str'' then s\<lparr>stat_str := stat_str s + amount\<rparr>
      else if k = ''vit'' then s\<lparr>stat_vit := stat_vit s + amount\<rparr>
      else if k = ''tec'' then s\<lparr>stat_tec := stat_tec s + amount\<rparr>
      else if k = ''wis'' then s\<lparr>stat_wis := stat_wis s + amount\<rparr>
      else if k = ''aura'' then s\<lparr>stat_aura := stat_aura s + amount\<rparr>
      else if k = ''agi'' then s\<lparr>stat_agi := stat_agi s + amount\<rparr>
      else s)"

text \<open>\<open>increaseStat\<close> returns its boolean result and the object after the call.\<close>

definition increaseStat :: "CharacterBaseStats \<Rightarrow> string \<Rightarrow> real \<Rightarrow> bool \<times> CharacterBaseStats" where
  "increaseStat s statKey amount =
     (if statKey \<notin> set StatKeys then (False, s)
      else if amount \<le> 0 then (False, s)
      else (True, addToStat s statKey amount))"

section \<open>Attributes.js\<close>

definition Race :: "string list" where
  "Race = [''Saiyan'', ''Human'', ''Namekian'', ''Android'', ''Frieza Race'', ''Majin'']"

definition Alignment :: "string list" where
  "Alignment = [''Pure Good'', ''Good'', ''Neutral'', ''Evil'', ''Pure Evil'']"

text \<open>
  \<open>baseStats\<close> is the reference to the linked \<open>CharacterBaseStats\<close> object, \<open>None\<close> for
  \<open>null\<close>; the record carries the linked object's contents.
\<close>

record CharacterAttributes =
  level :: real
  xp :: real
  xpToNextLevel :: real
  race :: string
  potential :: real
  potentialCap :: real
  alignment :: string
  unallocatedStatPoints :: real
  skillPoints :: real
  baseStats :: "CharacterBaseStats option"

record AttributesConfig =
  cfg_level :: "real option"
  cfg_xp :: "real option"
  cfg_xpToNextLevel :: "real option"
  cfg_race :: "string option"
  cfg_potential :: "real option"
  cfg_alignment :: "string option"
  cfg_unallocatedStatPoints :: "real option"
  cfg_skillPoints :: "real option"
  cfg_potentialCap :: "real option"
  cfg_baseStats :: "CharacterBaseStats option"

text \<open>
  The constructor. The default of \<open>potentialCap\<close> is the (defaulted) parameter
  \<open>potential\<close>; an unknown race or alignment is replaced, nothing else is validated.
\<close>

definition CharacterAttributes_new :: "AttributesConfig \<Rightarrow> CharacterAttributes" where
  "CharacterAttributes_new cfg =
     (let level0 = dflt 1 (cfg_level cfg);
          xp0 = dflt 0 (cfg_xp cfg);
          xpToNextLevel0 = dflt 100 (cfg_xpToNextLevel cfg);
          race0 = dflt ''Human'' (cfg_race cfg);
          potential0 = dflt (double_round 0.1) (cfg_potential cfg);
          alignment0 = dflt ''Neutral'' (cfg_alignment cfg);
          unallocatedStatPoints0 = dflt 0 (cfg_unallocatedStatPoints cfg);
          skillPoints0 = dflt 0 (cfg_skillPoints cfg);
          potentialCap0 = dflt potential0 (cfg_potentialCap cfg)
      in \<lparr>level = level0, xp = xp0, xpToNextLevel = xpToNextLevel0,
          race = (if race0 \<notin> set Race then ''Human'' else race0),
          potential = potential0, potentialCap = potentialCap0,
          alignment = (if alignment0 \<notin> set Alignment then ''Neutral'' else alignment0),
          unallocatedStatPoints = unallocatedStatPoints0, skillPoints = skillPoints0,
          baseStats = cfg_baseStats cfg\<rparr>)"

definition levelUp :: "CharacterAttributes \<Rightarrow> CharacterAttributes" where
  "levelUp a =
     (let newStatPoints = 5; newSkillPoints = 1
      in a\<lparr>level := add_d (level a) 1,
            unallocatedStatPoints := add_d (unallocatedStatPoints a) newStatPoints,
            skillPoints := add_d (skillPoints a) newSkillPoints,
            xpToNextLevel := Math_floor (mul_d (xpToNextLevel a) (double_round 1.2))\<rparr>)"

text \<open>
  The \<open>while\<close> loop of \<open>addXP\<close>. Nothing in the source bounds its iterations, so the
  loop is a partial function: \<open>None\<close> stands for a call that never returns.
\<close>

partial_function (option) addXP_loop :: "CharacterAttributes \<Rightarrow> CharacterAttributes option" where
  "addXP_loop a =
     (if xp a \<ge> xpToNextLevel a
      then addXP_loop (levelUp (a\<lparr>xp := sub_d (xp a) (xpToNextLevel a)\<rparr>))
      else Some a)"

definition addXP :: "CharacterAttributes \<Rightarrow> real \<Rightarrow> CharacterAttributes option" where
  "addXP a amount = addXP_loop (a\<lparr>xp := add_d (xp a) amount\<rparr>)"

text \<open>
  One pass through the loop body (subtract the threshold, then \<open>levelUp\<close>), and the
  condition under which the loop runs exactly \<open>n\<close> passes: the loop test holds before
  each of the first \<open>n\<close> passes and fails after the last.
\<close>

definition cascadeStep :: "CharacterAttributes \<Rightarrow> CharacterAttributes" where
  "cascadeStep a = levelUp (a\<lparr>xp := sub_d (xp a) (xpToNextLevel a)\<rparr>)"

definition stopsAfter :: "CharacterAttributes \<Rightarrow> nat \<Rightarrow> bool" where
  "stopsAfter a n =
     ((\<forall>k<n. xpToNextLevel ((cascadeStep ^^ k) a) \<le> xp ((cascadeStep ^^ k) a)) \<and>
      xp ((cascadeStep ^^ n) a) < xpToNextLevel ((cascadeStep ^^ n) a))"

definition allocateStatPoint :: "CharacterAttributes \<Rightarrow> string \<Rightarrow> bool \<times> CharacterAttributes" where
  "allocateStatPoint a statKey =
     (if unallocatedStatPoints a \<le> 0 then (False, a)
      else case baseStats a of
        None \<Rightarrow> (False, a)
      | Some bs \<Rightarrow>
          if statKey \<notin> set StatKeys then (False, a)
          else
            let (success, bs') = increaseStat bs statKey 1
            in if success
               then (True, a\<lparr>baseStats := Some bs',
                              unallocatedStatPoints := unallocatedStatPoints a - 1\<rparr>)
               else (False, a\<lparr>baseStats := Some bs'\<rparr>))"

definition useSkillPoint :: "CharacterAttributes \<Rightarrow> string \<Rightarrow> bool \<times> CharacterAttributes" where
  "useSkillPoint a skillId =
     (if skillPoints a > 0 then (True, a\<lparr>skillPoints := sub_d (skillPoints a) 1\<rparr>)
      else (False, a))"

definition increasePotential :: "CharacterAttributes \<Rightarrow> real \<Rightarrow> CharacterAttributes" where
  "increasePotential a amount = a\<lparr>potential := min (add_d (potential a) amount) (potentialCap a)\<rparr>"

section \<open>CombatStats.js\<close>

record CritTier =
  threshold :: real
  physMultiplier :: real
  energyMultiplier :: real
  defenseIgnore :: real
  guaranteedKnockback :: bool

record CritTiers =
  normal :: CritTier
  regular :: CritTier
  super :: CritTier
  mega :: CritTier
  omega :: CritTier

text \<open>
  The fields \<open>_accuracy\<close>, \<open>_critChance\<close>, ... of \<open>CharacterCombatStats\<close>. The object also
  holds references to the attributes and the base stats; the calculators below take the
  referenced base stats as an argument.
\<close>

record CharacterCombatStats =
  accuracy :: real
  evasion :: real
  critChance :: real
  critDamage :: real
  energyCritDamage :: real
  critTiers :: CritTiers
  knockback :: real
  pursuit :: real

definition initialCritTiers :: CritTiers where
  "initialCritTiers =
     \<lparr>normal = \<lparr>threshold = 0, physMultiplier = 1, energyMultiplier = 1,
                 defenseIgnore = 0, guaranteedKnockback = False\<rparr>,
      regular = \<lparr>threshold = 1, physMultiplier = 0, energyMultiplier = 0,
                 defenseIgnore = 0, guaranteedKnockback = False\<rparr>,
      super = \<lparr>threshold = double_round 1.01, physMultiplier = 0, energyMultiplier = 0,
                 defenseIgnore = 0.25, guaranteedKnockback = False\<rparr>,
      mega = \<lparr>threshold = double_round 2.01, physMultiplier = 0, energyMultiplier = 0,
                 defenseIgnore = 0.25, guaranteedKnockback = False\<rparr>,
      omega = \<lparr>threshold = double_round 3.01, physMultiplier = 0, energyMultiplier = 0,
                 defenseIgnore = 0.50, guaranteedKnockback = True\<rparr>\<rparr>"

definition calculateAccuracy :: "CharacterBaseStats \<Rightarrow> CharacterCombatStats \<Rightarrow> CharacterCombatStats" where
  "calculateAccuracy bs cs =
     (let tec = getStat bs ''tec''; agi = getStat bs ''agi'';
          baseAccuracy = 50;
          tecBonus = mul_d (div_d tec (add_d tec 60)) 50;
          agiBonus = mul_d (div_d agi (add_d agi 120)) 25
      in cs\<lparr>accuracy := add_d (add_d baseAccuracy tecBonus) agiBonus\<rparr>)"

definition calculateEvasion :: "CharacterBaseStats \<Rightarrow> CharacterCombatStats \<Rightarrow> CharacterCombatStats" where
  "calculateEvasion bs cs =
     (let agi = getStat bs ''agi''; aura = getStat bs ''aura'';
          baseEvasion = 35;
          agiBonus = mul_d (div_d agi (add_d agi 80)) 60;
          auraBonus = mul_d (div_d aura (add_d aura 150)) 20
      in cs\<lparr>evasion := add_d (add_d baseEvasion agiBonus) auraBonus\<rparr>)"

definition calculateCritChance :: "CharacterBaseStats \<Rightarrow> CharacterCombatStats \<Rightarrow> CharacterCombatStats" where
  "calculateCritChance bs cs =
     (let tec = getStat bs ''tec''; baseCrit = double_round 0.05;
          tecContribution = div_d tec 150
      in cs\<lparr>critChance := add_d baseCrit tecContribution\<rparr>)"

definition calculateCritDamage :: "CharacterBaseStats \<Rightarrow> CharacterCombatStats \<Rightarrow> CharacterCombatStats" where
  "calculateCritDamage bs cs =
     (let str = getStat bs ''str''; baseMultiplier = 1.5;
          strBonus = (str / (str + 200)) * 3.5;
          cd = baseMultiplier + strBonus;
          t = critTiers cs
      in cs\<lparr>critDamage := cd,
            critTiers := t\<lparr>normal := (normal t)\<lparr>physMultiplier := 1.0\<rparr>,
                            regular := (regular t)\<lparr>physMultiplier := cd\<rparr>,
                            super := (super t)\<lparr>physMultiplier := cd\<rparr>,
                            mega := (mega t)\<lparr>physMultiplier := cd * 1.5\<rparr>,
                            omega := (omega t)\<lparr>physMultiplier := cd * 2.0\<rparr>\<rparr>\<rparr>)"

definition calculateEnergyCritDamage :: "CharacterBaseStats \<Rightarrow> CharacterCombatStats \<Rightarrow> CharacterCombatStats" where
  "calculateEnergyCritDamage bs cs =
     (let tec = getStat bs ''tec''; baseMultiplier = 1.5;
          tecBonus = (tec / (tec + 200)) * 3.5;
          ecd = baseMultiplier + tecBonus;
          t = critTiers cs
      in cs\<lparr>energyCritDamage := ecd,
            critTiers := t\<lparr>normal := (normal t)\<lparr>energyMultiplier := 1.0\<rparr>,
                            regular := (regular t)\<lparr>energyMultiplier := ecd\<rparr>,
                            super := (super t)\<lparr>energyMultiplier := ecd\<rparr>,
                            mega := (mega t)\<lparr>energyMultiplier := ecd * 1.5\<rparr>,
                            omega := (omega t)\<lparr>energyMultiplier := ecd * 2.0\<rparr>\<rparr>\<rparr>)"

definition calculateKnockback :: "CharacterBaseStats \<Rightarrow> CharacterCombatStats \<Rightarrow> CharacterCombatStats" where
  "calculateKnockback bs cs =
     (let str = getStat bs ''str''; baseKnockback = 3;
          strBonus = mul_d (div_d str (add_d str 50)) 12
      in cs\<lparr>knockback := Math_floor (add_d baseKnockback strBonus)\<rparr>)"

definition calculatePursuit :: "CharacterBaseStats \<Rightarrow> CharacterCombatStats \<Rightarrow> CharacterCombatStats" where
  "calculatePursuit bs cs =
     (let agi = getStat bs ''agi''; tec = getStat bs ''tec'';
          basePursuit = 5;
          agiBonus = mul_d (div_d agi (add_d agi 75)) 30;
          tecBonus = mul_d (div_d tec (add_d tec 150)) 15
      in cs\<lparr>pursuit := Math_floor (add_d (add_d basePursuit agiBonus) tecBonus)\<rparr>)"

definition combat_updateAll :: "CharacterBaseStats \<Rightarrow> CharacterCombatStats \<Rightarrow> CharacterCombatStats" where
  "combat_updateAll bs cs =
     calculatePursuit bs (calculateKnockback bs (calculateEnergyCritDamage bs
       (calculateCritDamage bs (calculateCritChance bs (calculateEvasion bs
         (calculateAccuracy bs cs))))))"

text \<open>
  The constructor throws when a dependency is missing (\<open>None\<close>); \<open>derivedStats\<close> is
  optional and only stored. It installs the tier table and runs \<open>updateAll\<close>.
\<close>

definition CharacterCombatStats_new ::
  "CharacterAttributes option \<Rightarrow> CharacterBaseStats option \<Rightarrow> error + CharacterCombatStats" where
  "CharacterCombatStats_new attributes bStats =
     (case (attributes, bStats) of
        (Some a, Some bs) \<Rightarrow>
          Inr (combat_updateAll bs
            \<lparr>accuracy = 0, evasion = 0, critChance = 0, critDamage = 0,
             energyCritDamage = 0, critTiers = initialCritTiers, knockback = 0, pursuit = 0\<rparr>)
      | _ \<Rightarrow> Inl (Error ''CharacterCombatStats requires at least Attributes and BaseStats instances.''))"

definition effectiveCritChance :: "CharacterCombatStats \<Rightarrow> real" where
  "effectiveCritChance cs = min (critChance cs) 1.0"

definition canSuperCrit :: "CharacterCombatStats \<Rightarrow> bool" where
  "canSuperCrit cs = (critChance cs \<ge> threshold (super (critTiers cs)))"

definition canMegaCrit :: "CharacterCombatStats \<Rightarrow> bool" where
  "canMegaCrit cs = (critChance cs \<ge> threshold (mega (critTiers cs)))"

definition canOmegaCrit :: "CharacterCombatStats \<Rightarrow> bool" where
  "canOmegaCrit cs = (critChance cs \<ge> threshold (omega (critTiers cs)))"

text \<open>
  \<open>Math.random()\<close>: the random source is the stream of the rolls still to come; a call
  takes the head.
\<close>

definition Math_random :: "real stream \<Rightarrow> real \<times> real stream" where
  "Math_random rs = (shd rs, stl rs)"

text \<open>\<open>rollCriticalHit\<close> returns the tier name and the random source after its draws.\<close>

definition rollCriticalHit :: "CharacterCombatStats \<Rightarrow> real stream \<Rightarrow> string \<times> real stream" where
  "rollCriticalHit cs rs0 =
     (let c = critChance cs; t = critTiers cs;
          (critRoll, rs1) = Math_random rs0
      in if critRoll > min c 1.0 then (''normal'', rs1)
         else
           let (omegaHit, rs2) =
                 (if c \<ge> threshold (omega t)
                  then let omegaChance =
                             div_d (add_d (sub_d c (threshold (omega t))) (double_round 0.01))
                                   (sub_d (threshold (omega t)) (threshold (mega t)));
                           (r, rs) = Math_random rs1
                       in (r \<le> min omegaChance 1.0, rs)
                  else (False, rs1))
           in if omegaHit then (''omega'', rs2)
              else
                let (megaHit, rs3) =
                      (if c \<ge> threshold (mega t)
                       then let megaChance =
                                  div_d (add_d (sub_d c (threshold (mega t))) (double_round 0.01))
                                        (sub_d (threshold (mega t)) (threshold (super t)));
                                (r, rs) = Math_random rs2
                            in (r \<le> min megaChance 1.0, rs)
                       else (False, rs2))
                in if megaHit then (''mega'', rs3)
                   else
                     let (superHit, rs4) =
                           (if c \<ge> threshold (super t)
                            then let superChance =
                                       div_d (add_d (sub_d c (threshold (super t))) (double_round 0.01))
                                             (sub_d (threshold (super t)) (threshold (regular t)));
                                     (r, rs) = Math_random rs3
                                 in (r \<le> min superChance 1.0, rs)
                            else (False, rs3))
                     in if superHit then (''super'', rs4) else (''regular'', rs4))"

text \<open>
  The chance of a tier check as the specification writes it, from the crit chance, the
  tier's threshold and the next lower tier's threshold, in the arithmetic of the code.
\<close>

definition tierChance :: "real \<Rightarrow> real \<Rightarrow> real \<Rightarrow> real" where
  "tierChance c th lower =
     min (div_d (add_d (sub_d c th) (double_round 0.01)) (sub_d th lower)) 1.0"

text \<open>No tier check divides by zero: the difference of two neighbouring thresholds is not 0.\<close>

definition tiersApart :: "CharacterCombatStats \<Rightarrow> bool" where
  "tiersApart cs =
     (let t = critTiers cs
      in sub_d (threshold (omega t)) (threshold (mega t)) \<noteq> 0 \<and>
         sub_d (threshold (mega t)) (threshold (super t)) \<noteq> 0 \<and>
         sub_d (threshold (super t)) (threshold (regular t)) \<noteq> 0)"

section \<open>Resources.js\<close>

datatype ResourceKeys = HEALTH | KI | STAMINA | FATIGUE

text \<open>
  The numeric fields of \<open>CharacterResources\<close>. The object also holds references to the
  attributes and the base stats; \<open>calculateMaxValues\<close> takes the referenced objects as
  arguments.
\<close>

record CharacterResources =
  maxHealth :: real
  maxKi :: real
  maxStamina :: real
  health :: real
  ki :: real
  stamina :: real
  fatigue :: real

definition calculateMaxValues ::
  "CharacterAttributes \<Rightarrow> CharacterBaseStats \<Rightarrow> CharacterResources \<Rightarrow> CharacterResources" where
  "calculateMaxValues a bs r =
     (let lvl = level a;
          vit = getStat bs ''vit''; wis = getStat bs ''wis''; aura = getStat bs ''aura'';
          agi = getStat bs ''agi''; baseHp = getStat bs ''hp''; baseKi = getStat bs ''ki'';
          baseSta = getStat bs ''sta''
      in r\<lparr>maxHealth := Math_floor (baseHp + (lvl * 10) + (vit * 5)),
           maxKi := Math_floor (baseKi + (lvl * 5) + (wis * 3) + (aura * 2)),
           maxStamina := Math_floor (baseSta + (lvl * 5) + (vit * 2) + (agi * 3))\<rparr>)"



definition getResource :: "CharacterResources \<Rightarrow> ResourceKeys \<Rightarrow> real" where
  "getResource r key =
     (case key of HEALTH \<Rightarrow> health r | KI \<Rightarrow> ki r | STAMINA \<Rightarrow> stamina r | FATIGUE \<Rightarrow> fatigue r)"

definition setResource :: "CharacterResources \<Rightarrow> ResourceKeys \<Rightarrow> real \<Rightarrow> CharacterResources" where
  "setResource r key v =
     (case key of HEALTH \<Rightarrow> r\<lparr>health := v\<rparr> | KI \<Rightarrow> r\<lparr>ki := v\<rparr>
      | STAMINA \<Rightarrow> r\<lparr>stamina := v\<rparr> | FATIGUE \<Rightarrow> r\<lparr>fatigue := v\<rparr>)"

text \<open>
  \<open>_modifyResource(key, amount, min, max)\<close>: add, then clamp, and return the new value.
  Every caller passes a member of \<open>ResourceKeys\<close>, which is an own property of the
  object, so the invalid-key branch is never taken.
\<close>

definition modifyResource ::
  "CharacterResources \<Rightarrow> ResourceKeys \<Rightarrow> real \<Rightarrow> real \<Rightarrow> real \<Rightarrow> real \<times> CharacterResources" where
  "modifyResource r key amount mn mx =
     (let r1 = setResource r key (getResource r key + amount);
          r2 = setResource r1 key (max mn (min (getResource r1 key) mx))
      in (getResource r2 key, r2))"

text \<open>What a mutator returns: a number, or the boolean of \<open>useKi\<close> and \<open>useStamina\<close>.\<close>

datatype JSValue = Number real | Boolean bool

definition takeDamage :: "CharacterResources \<Rightarrow> real \<Rightarrow> real \<times> CharacterResources" where
  "takeDamage r amount =
     (if amount \<le> 0 then (health r, r)
      else modifyResource r HEALTH (- amount) 0 (maxHealth r))"

definition restoreHealth :: "CharacterResources \<Rightarrow> real \<Rightarrow> real \<times> CharacterResources" where
  "restoreHealth r amount =
     (if amount \<le> 0 then (health r, r)
      else modifyResource r HEALTH amount 0 (maxHealth r))"

definition useKi :: "CharacterResources \<Rightarrow> real \<Rightarrow> JSValue \<times> CharacterResources" where
  "useKi r amount =
     (if amount \<le> 0 then (Number (ki r), r)
      else if ki r < amount then (Boolean False, r)
      else (Boolean True, snd (modifyResource r KI (- amount) 0 (maxKi r))))"

definition restoreKi :: "CharacterResources \<Rightarrow> real \<Rightarrow> real \<times> CharacterResources" where
  "restoreKi r amount =
     (if amount \<le> 0 then (ki r, r)
      else modifyResource r KI amount 0 (maxKi r))"

definition addFatigue :: "CharacterResources \<Rightarrow> real \<Rightarrow> real \<times> CharacterResources" where
  "addFatigue r amount =
     (if amount \<le> 0 then (fatigue r, r)
      else let maxFatigue = 100 in modifyResource r FATIGUE amount 0 maxFatigue)"

definition reduceFatigue :: "CharacterResources \<Rightarrow> real \<Rightarrow> real \<times> CharacterResources" where
  "reduceFatigue r amount =
     (if amount \<le> 0 then (fatigue r, r)
      else let maxFatigue = 100 in modifyResource r FATIGUE (- amount) 0 maxFatigue)"

definition useStamina :: "CharacterResources \<Rightarrow> real \<Rightarrow> JSValue \<times> CharacterResources" where
  "useStamina r amount =
     (if amount \<le> 0 then (Number (stamina r), r)
      else if stamina r < amount then (Boolean False, r)
      else
        let r1 = snd (modifyResource r STAMINA (- amount) 0 (maxStamina r));
            r2 = snd (addFatigue r1 (Math_ceil (amount * 0.1)))
        in (Boolean True, r2))"

definition recoverStamina :: "CharacterResources \<Rightarrow> real \<Rightarrow> real \<times> CharacterResources" where
  "recoverStamina r amount =
     (if amount \<le> 0 then (stamina r, r)
      else modifyResource r STAMINA amount 0 (maxStamina r))"

definition handleStatChange ::
  "CharacterAttributes \<Rightarrow> CharacterBaseStats \<Rightarrow> CharacterResources \<Rightarrow> CharacterResources" where
  "handleStatChange a bs r =
     (let r1 = calculateMaxValues a bs r
      in r1\<lparr>health := min (health r1) (maxHealth r1),
            ki := min (ki r1) (maxKi r1),
            stamina := min (stamina r1) (maxStamina r1)\<rparr>)"

text \<open>
  A call of one of the eight mutators, and the states a sequence of calls goes through
  (the state after each call, in order).
\<close>

datatype ResourceCall =
  TakeDamage real | RestoreHealth real | UseKi real | RestoreKi real
  | UseStamina real | RecoverStamina real | AddFatigue real | ReduceFatigue real

fun callResource :: "CharacterResources \<Rightarrow> ResourceCall \<Rightarrow> CharacterResources" where
  "callResource r (TakeDamage x) = snd (takeDamage r x)"
| "callResource r (RestoreHealth x) = snd (restoreHealth r x)"
| "callResource r (UseKi x) = snd (useKi r x)"
| "callResource r (RestoreKi x) = snd (restoreKi r x)"
| "callResource r (UseStamina x) = snd (useStamina r x)"
| "callResource r (RecoverStamina x) = snd (recoverStamina r x)"
| "callResource r (AddFatigue x) = snd (addFatigue r x)"
| "callResource r (ReduceFatigue x) = snd (reduceFatigue r x)"

fun statesOf :: "CharacterResources \<Rightarrow> ResourceCall list \<Rightarrow> CharacterResources list" where
  "statesOf r [] = []"
| "statesOf r (c # cs) = callResource r c # statesOf (callResource r c) cs"

text \<open>The bounds of the resource pool: each current value within its maximum, fatigue within 100.\<close>

definition inBounds :: "CharacterResources \<Rightarrow> bool" where
  "inBounds r =
     (0 \<le> health r \<and> health r \<le> maxHealth r \<and> 0 \<le> ki r \<and> ki r \<le> maxKi r \<and>
      0 \<le> stamina r \<and> stamina r \<le> maxStamina r \<and> 0 \<le> fatigue r \<and> fatigue r \<le> 100)"

section \<open>DerivedStats.js\<close>








section \<open>Resistances.js\<close>









section \<open>Character.js\<close>



definition emptyAttributesConfig :: AttributesConfig where
  "emptyAttributesConfig =
     \<lparr>cfg_level = None, cfg_xp = None, cfg_xpToNextLevel = None, cfg_race = None,
      cfg_potential = None, cfg_alignment = None, cfg_unallocatedStatPoints = None,
      cfg_skillPoints = None, cfg_potentialCap = None, cfg_baseStats = None\<rparr>"

definition emptyBaseStatsConfig :: BaseStatsConfig where
  "emptyBaseStatsConfig =
     \<lparr>cfg_hp = None, cfg_ki = None, cfg_sta = None, cfg_str = None, cfg_vit = None,
      cfg_tec = None, cfg_wis = None, cfg_aura = None, cfg_agi = None\<rparr>"




section \<open>Rounding to a double\<close>

lemma round_even_ge: "of_int k \<le> y \<Longrightarrow> k \<le> round_even y"
  unfolding round_even_def Let_def by (auto simp: le_floor_iff) linarith+

lemma round_even_le: "y \<le> of_int k \<Longrightarrow> round_even y \<le> k"
  unfolding round_even_def Let_def by (auto split: if_splits) linarith+

lemma round_even_of_int: "round_even (of_int k) = k"
  by (simp add: round_even_def)

lemma two_powr_int: "(2::real) powr of_int e = 2 powi e"
  by (simp add: powr_real_of_int')

lemma binade_eq:
  assumes "2 powi e \<le> \<bar>x\<bar>" "\<bar>x\<bar> < 2 powi (e + 1)"
  shows "binade x = e"
proof -
  have "(0::real) < 2 powi e" by simp
  then have "0 < \<bar>x\<bar>" using assms(1) by linarith
  then show ?thesis unfolding binade_def using assms
    by (subst floor_log_eq_powr_iff) (simp_all add: two_powr_int [symmetric])
qed

lemma binade_bounds:
  assumes "x \<noteq> 0"
  shows "2 powi (binade x) \<le> \<bar>x\<bar>" "\<bar>x\<bar> < 2 powi (binade x + 1)"
proof -
  have "0 < \<bar>x\<bar>" using assms by simp
  from floor_log_eq_powr_iff [OF this, of 2 "binade x"]
  show "2 powi (binade x) \<le> \<bar>x\<bar>" "\<bar>x\<bar> < 2 powi (binade x + 1)"
    by (simp_all add: binade_def two_powr_int [symmetric])
qed

lemma double_round_eq:
  assumes "2 powi e \<le> \<bar>x\<bar>" "\<bar>x\<bar> < 2 powi (e + 1)"
  shows "double_round x = of_int (round_even (x / 2 powi (e - 52))) * 2 powi (e - 52)"
proof -
  have "(0::real) < 2 powi e" by simp
  then have "0 < \<bar>x\<bar>" using assms(1) by linarith
  then have "x \<noteq> 0" by simp
  then show ?thesis by (simp add: double_round_def binade_eq [OF assms])
qed

text \<open>
  Evaluation at a given size: scale \<open>x\<close> by a power of two into \<open>[2^52, 2^53)\<close>, round to
  an integer, scale back.
\<close>

lemma double_round_scaled_down:
  assumes "2 ^ 52 \<le> \<bar>x\<bar> * 2 ^ k" "\<bar>x\<bar> * 2 ^ k < 2 ^ 53"
  shows "double_round x = of_int (round_even (x * 2 ^ k)) / 2 ^ k"
proof -
  have p: "(2::real) powi (52 - int k) = 2 ^ 52 / 2 ^ k" "(2::real) powi (52 - int k + 1) = 2 ^ 53 / 2 ^ k"
    "(2::real) powi (52 - int k - 52) = 1 / 2 ^ k"
    by (simp_all add: power_int_diff power_int_add power_int_minus field_simps)
  have "2 powi (52 - int k) \<le> \<bar>x\<bar>" "\<bar>x\<bar> < 2 powi (52 - int k + 1)"
    unfolding p using assms by (simp_all add: field_simps)
  from double_round_eq [OF this] show ?thesis unfolding p by simp
qed

lemma double_round_scaled_up:
  assumes "2 ^ 52 \<le> \<bar>x\<bar> / 2 ^ k" "\<bar>x\<bar> / 2 ^ k < 2 ^ 53"
  shows "double_round x = of_int (round_even (x / 2 ^ k)) * 2 ^ k"
proof -
  have p: "(2::real) powi (52 + int k) = 2 ^ 52 * 2 ^ k" "(2::real) powi (52 + int k + 1) = 2 ^ 53 * 2 ^ k"
    "(2::real) powi (52 + int k - 52) = 2 ^ k"
    by (simp_all add: power_int_diff power_int_add power_int_minus field_simps)
  have "2 powi (52 + int k) \<le> \<bar>x\<bar>" "\<bar>x\<bar> < 2 powi (52 + int k + 1)"
    unfolding p using assms by (simp_all add: field_simps)
  from double_round_eq [OF this] show ?thesis unfolding p by simp
qed

lemma ulp_pos: "(0::real) < 2 powi j" by simp

lemma double_round_unfold:
  "x \<noteq> 0 \<Longrightarrow> double_round x = of_int (round_even (x / 2 powi (binade x - 52))) * 2 powi (binade x - 52)"
  by (simp add: double_round_def)

lemma double_round_nonpos:
  assumes "x \<le> 0" shows "double_round x \<le> 0"
proof (cases "x = 0")
  case True then show ?thesis by (simp add: double_round_def)
next
  case False
  have "x / 2 powi (binade x - 52) \<le> of_int 0" using assms by (simp add: divide_nonpos_pos)
  then have "round_even (x / 2 powi (binade x - 52)) \<le> 0" by (rule round_even_le)
  then have "real_of_int (round_even (x / 2 powi (binade x - 52))) \<le> 0" by simp
  then show ?thesis unfolding double_round_unfold [OF False]
    by (simp add: mult_nonpos_nonneg)
qed

lemma scale_le:
  fixes u :: real
  assumes "0 < u" "of_int m \<le> y" "of_int m * u = c"
  shows "c \<le> of_int (round_even y) * u"
proof -
  have "m \<le> round_even y" using assms(2) by (rule round_even_ge)
  then have "real_of_int m \<le> of_int (round_even y)" by (simp only: of_int_le_iff)
  then have "real_of_int m * u \<le> of_int (round_even y) * u"
    using assms(1) by (simp only: mult_le_cancel_right_pos)
  then show ?thesis using assms(3) by (simp only:)
qed

lemma scale_ge:
  fixes u :: real
  assumes "0 < u" "y \<le> of_int m" "of_int m * u = c"
  shows "of_int (round_even y) * u \<le> c"
proof -
  have "round_even y \<le> m" using assms(2) by (rule round_even_le)
  then have "real_of_int (round_even y) \<le> of_int m" by (simp only: of_int_le_iff)
  then have "of_int (round_even y) * u \<le> real_of_int m * u"
    using assms(1) by (simp only: mult_le_cancel_right_pos)
  then show ?thesis using assms(3) by (simp only:)
qed

lemma double_round_low:
  assumes "0 < x" shows "2 powi (binade x) \<le> double_round x"
proof -
  let ?u = "(2::real) powi (binade x - 52)"
  have x0: "x \<noteq> 0" using assms by simp
  have "2 powi (binade x) \<le> x" using binade_bounds(1) [OF x0] assms by simp
  then have "2 powi (binade x) / ?u \<le> x / ?u" by (simp add: divide_right_mono)
  moreover have "(2::real) powi (binade x) / ?u = of_int (2 ^ 52)"
    by (simp add: power_int_diff)
  ultimately have a: "of_int (2 ^ 52) \<le> x / ?u" by simp
  have b: "real_of_int (2 ^ 52) * ?u = 2 powi (binade x)" by (simp add: power_int_diff)
  show ?thesis unfolding double_round_unfold [OF x0]
    by (rule scale_le [OF ulp_pos a b])
qed

lemma double_round_ge_int:
  assumes "0 < n" "n \<le> 2 ^ 53" "of_int n \<le> x"
  shows "of_int n \<le> double_round x"
proof -
  let ?e = "binade x"
  let ?u = "(2::real) powi (?e - 52)"
  have "(0::real) < of_int n" using assms(1) by simp
  then have xpos: "0 < x" using assms(3) by linarith
  then have x0: "x \<noteq> 0" by simp
  show ?thesis
  proof (cases "?e \<le> 52")
    case True
    define k where "k = nat (52 - ?e)"
    have u: "?u = 1 / 2 ^ k" using True by (simp add: k_def power_int_def field_simps)
    have a: "of_int (n * 2 ^ k) \<le> x / ?u" unfolding u using assms(3) by (simp add: mult_right_mono)
    have b: "real_of_int (n * 2 ^ k) * ?u = of_int n" unfolding u by simp
    show ?thesis unfolding double_round_unfold [OF x0]
      by (rule scale_le [OF ulp_pos a b])
  next
    case False
    then have "53 \<le> ?e" by simp
    then have "(2::real) powi 53 \<le> 2 powi ?e" by (intro power_int_increasing) simp_all
    moreover have "real_of_int n \<le> 2 powi 53"
    proof -
      have "real_of_int n \<le> real_of_int (2 ^ 53)" using assms(2) by (simp only: of_int_le_iff)
      then show ?thesis by simp
    qed
    ultimately show ?thesis using double_round_low [OF xpos] by linarith
  qed
qed

lemma double_round_le_int:
  assumes "0 < x" "x \<le> of_int n" "n \<le> 2 ^ 53"
  shows "double_round x \<le> of_int n"
proof -
  let ?e = "binade x"
  let ?u = "(2::real) powi (?e - 52)"
  have x0: "x \<noteq> 0" using assms(1) by simp
  have n53: "real_of_int n \<le> 2 ^ 53"
  proof -
    have "real_of_int n \<le> real_of_int (2 ^ 53)" using assms(3) by (simp only: of_int_le_iff)
    then show ?thesis by simp
  qed
  have lo: "2 powi ?e \<le> x" using binade_bounds(1) [OF x0] assms(1) by simp
  show ?thesis
  proof (cases "?e \<le> 52")
    case True
    define k where "k = nat (52 - ?e)"
    have u: "?u = 1 / 2 ^ k" using True by (simp add: k_def power_int_def field_simps)
    have a: "x / ?u \<le> of_int (n * 2 ^ k)" unfolding u using assms(2) by (simp add: mult_right_mono)
    have b: "real_of_int (n * 2 ^ k) * ?u = of_int n" unfolding u by simp
    show ?thesis unfolding double_round_unfold [OF x0]
      by (rule scale_ge [OF ulp_pos a b])
  next
    case False
    then have "53 \<le> ?e" by simp
    then have "(2::real) powi 53 \<le> 2 powi ?e" by (intro power_int_increasing) simp_all
    then have "2 ^ 53 \<le> x" using lo by simp
    then have x: "x = 2 ^ 53" and n: "real_of_int n = 2 ^ 53" using assms(2) n53 by linarith+
    have "double_round x = 2 ^ 53" unfolding x
      by (subst double_round_scaled_up [where k = 1]) (simp_all add: round_even_def)
    then show ?thesis using n by simp
  qed
qed

lemma double_round_of_int:
  assumes "0 \<le> n" "n \<le> 2 ^ 53"
  shows "double_round (of_int n) = of_int n"
proof (cases "n = 0")
  case True then show ?thesis by (simp add: double_round_def)
next
  case False
  then have "0 < n" using assms(1) by simp
  then have "(0::real) < of_int n" by simp
  from double_round_ge_int [OF \<open>0 < n\<close> assms(2), of "of_int n"]
    double_round_le_int [OF this _ assms(2)]
  show ?thesis by simp
qed

lemma double_round_Ints:
  assumes "x \<in> \<int>" "0 \<le> x" "x \<le> 2 ^ 53"
  shows "double_round x = x"
proof -
  from assms(1) obtain n :: int where n: "x = of_int n" by (auto elim: Ints_cases)
  have "0 \<le> n" using assms(2) n by simp
  moreover have "n \<le> 2 ^ 53"
  proof -
    have "real_of_int n \<le> real_of_int (2 ^ 53)" using assms(3) n by simp
    then show ?thesis by (simp only: of_int_le_iff)
  qed
  ultimately show ?thesis unfolding n by (rule double_round_of_int)
qed

lemma double_round_ge_1: "1 \<le> x \<Longrightarrow> 1 \<le> double_round x"
  using double_round_ge_int [of 1 x] by simp


section \<open>Reading a stat\<close>

lemma getStat_key:
  "getStat bs ''hp'' = stat_hp bs" "getStat bs ''ki'' = stat_ki bs" "getStat bs ''sta'' = stat_sta bs"
  "getStat bs ''str'' = stat_str bs" "getStat bs ''vit'' = stat_vit bs" "getStat bs ''tec'' = stat_tec bs"
  "getStat bs ''wis'' = stat_wis bs" "getStat bs ''aura'' = stat_aura bs" "getStat bs ''agi'' = stat_agi bs"
  by (simp_all add: getStat_def)

section \<open>Critical-hit tier multipliers\<close>






section \<open>Resource bounds\<close>

lemma modifyResource_simps:
  "snd (modifyResource r HEALTH x mn mx) = r\<lparr>health := max mn (min (health r + x) mx)\<rparr>"
  "snd (modifyResource r KI x mn mx) = r\<lparr>ki := max mn (min (ki r + x) mx)\<rparr>"
  "snd (modifyResource r STAMINA x mn mx) = r\<lparr>stamina := max mn (min (stamina r + x) mx)\<rparr>"
  "snd (modifyResource r FATIGUE x mn mx) = r\<lparr>fatigue := max mn (min (fatigue r + x) mx)\<rparr>"
  by (simp_all add: modifyResource_def getResource_def setResource_def Let_def)

lemma callResource_inBounds:
  assumes "inBounds r"
  shows "inBounds (callResource r c)"
  using assms
  by (cases c)
     (auto simp: inBounds_def takeDamage_def restoreHealth_def useKi_def restoreKi_def
        useStamina_def recoverStamina_def addFatigue_def reduceFatigue_def
        modifyResource_simps Let_def)

lemma callResource_max:
  "maxHealth (callResource r c) = maxHealth r \<and> maxKi (callResource r c) = maxKi r \<and>
   maxStamina (callResource r c) = maxStamina r"
  by (cases c)
     (auto simp: takeDamage_def restoreHealth_def useKi_def restoreKi_def
        useStamina_def recoverStamina_def addFatigue_def reduceFatigue_def
        modifyResource_simps Let_def)

text \<open>
  C3. From a state within bounds, every state reached by a sequence of calls of the eight
  mutators, whatever their amounts, is within bounds again (each of health, ki and stamina
  between 0 and its maximum, fatigue between 0 and 100), and the maxima are the ones the
  sequence started with.
\<close>

theorem resources_stay_in_bounds:
  assumes "inBounds r"
  shows "\<forall>s \<in> set (statesOf r calls).
           inBounds s \<and> maxHealth s = maxHealth r \<and> maxKi s = maxKi r \<and> maxStamina s = maxStamina r"
  using assms
proof (induction calls arbitrary: r)
  case Nil
  show ?case by simp
next
  case (Cons c calls)
  have step: "inBounds (callResource r c)" using Cons.prems by (rule callResource_inBounds)
  from Cons.IH [OF step] step callResource_max [of r c] show ?case by simp
qed

text \<open>Overshooting damage, healing, costs and fatigue relief: every state stays within bounds.\<close>

theorem resources_stay_in_bounds_witness:
  "inBounds \<lparr>maxHealth = 100, maxKi = 50, maxStamina = 75,
             health = 40, ki = 10, stamina = 75, fatigue = 95\<rparr> \<and>
   list_all inBounds
     (statesOf \<lparr>maxHealth = 100, maxKi = 50, maxStamina = 75,
                health = 40, ki = 10, stamina = 75, fatigue = 95\<rparr>
        [TakeDamage 1000, RestoreHealth 5000, UseKi 20, UseStamina 70, ReduceFatigue 500]) \<and>
   last (statesOf \<lparr>maxHealth = 100, maxKi = 50, maxStamina = 75,
                health = 40, ki = 10, stamina = 75, fatigue = 95\<rparr>
        [TakeDamage 1000, RestoreHealth 5000, UseKi 20, UseStamina 70, ReduceFatigue 500]) =
     \<lparr>maxHealth = 100, maxKi = 50, maxStamina = 75,
      health = 100, ki = 10, stamina = 5, fatigue = 0\<rparr>"
  using resources_stay_in_bounds [of "\<lparr>maxHealth = 100, maxKi = 50, maxStamina = 75,
             health = 40, ki = 10, stamina = 75, fatigue = 95\<rparr>"
      "[TakeDamage 1000, RestoreHealth 5000, UseKi 20, UseStamina 70, ReduceFatigue 500]"]
  by (simp add: inBounds_def takeDamage_def restoreHealth_def useKi_def useStamina_def
        addFatigue_def reduceFatigue_def modifyResource_simps Math_ceil_def Let_def)

section \<open>Construction\<close>


section \<open>Spending ki and stamina\<close>



section \<open>Allocating a stat point\<close>











section \<open>Potential and its cap\<close>

lemma cascadeStep_fields:
  "cascadeStep a = a\<lparr>xp := sub_d (xp a) (xpToNextLevel a), level := add_d (level a) 1,
       unallocatedStatPoints := add_d (unallocatedStatPoints a) 5,
       skillPoints := add_d (skillPoints a) 1,
       xpToNextLevel := of_int \<lfloor>mul_d (xpToNextLevel a) (double_round 1.2)\<rfloor>\<rparr>"
  by (simp add: cascadeStep_def levelUp_def Math_floor_def Let_def)

text \<open>
  C9. The constructor stores the \<open>potential\<close> and the \<open>potentialCap\<close> of the configuration
  as they come: configured with potential 0.5 and cap 0.2, the new object has a
  potential above its cap.
\<close>

theorem constructor_potential_above_cap:
  "potential (CharacterAttributes_new
       (emptyAttributesConfig\<lparr>cfg_potential := Some 0.5, cfg_potentialCap := Some 0.2\<rparr>)) = 0.5 \<and>
   potentialCap (CharacterAttributes_new
       (emptyAttributesConfig\<lparr>cfg_potential := Some 0.5, cfg_potentialCap := Some 0.2\<rparr>)) = 0.2 \<and>
   potentialCap (CharacterAttributes_new
       (emptyAttributesConfig\<lparr>cfg_potential := Some 0.5, cfg_potentialCap := Some 0.2\<rparr>)) <
   potential (CharacterAttributes_new
       (emptyAttributesConfig\<lparr>cfg_potential := Some 0.5, cfg_potentialCap := Some 0.2\<rparr>))"
  by (simp add: CharacterAttributes_new_def emptyAttributesConfig_def dflt_def Let_def)

text \<open>
  Every method keeps the cap and never lifts the potential above it: the constructor is
  the one place where the bound can fail.
\<close>

lemma methods_keep_potential_below_cap:
  assumes "potential a \<le> potentialCap a"
  shows "potential (levelUp a) \<le> potentialCap (levelUp a)"
    and "potential (cascadeStep a) \<le> potentialCap (cascadeStep a)"
    and "potential (snd (allocateStatPoint a k)) \<le> potentialCap (snd (allocateStatPoint a k))"
    and "potential (snd (useSkillPoint a k)) \<le> potentialCap (snd (useSkillPoint a k))"
    and "potential (increasePotential a x) \<le> potentialCap (increasePotential a x)"
    and "potentialCap (increasePotential a x) = potentialCap a"
  using assms
  by (auto simp: levelUp_def cascadeStep_fields allocateStatPoint_def useSkillPoint_def
      increasePotential_def Let_def split: option.splits prod.splits)

lemma increasePotential_clamps:
  "potential (increasePotential a x) \<le> potentialCap (increasePotential a x)"
  by (simp add: increasePotential_def)

section \<open>Damage on a character\<close>









section \<open>Pursuit\<close>

text \<open>
  With AGI 240 and TEC 25 the exact sum \<open>5 + 160/7 + 15/7\<close> is 30, but every operation
  rounds and the sum of the doubles is \<open>29.999999999999996\<close>: the pursuit is 29.
\<close>

lemma calculatePursuit_agi_240_tec_25:
  "pursuit (calculatePursuit
      ((CharacterBaseStats_new emptyBaseStatsConfig)\<lparr>stat_agi := 240, stat_tec := 25\<rparr>) cs) = 29"
proof -
  let ?bs = "(CharacterBaseStats_new emptyBaseStatsConfig)\<lparr>stat_agi := 240, stat_tec := 25\<rparr>"
  have stats: "getStat ?bs ''agi'' = 240" "getStat ?bs ''tec'' = 25"
    by (simp_all add: getStat_key)
  have sums: "add_d 240 75 = 315" "add_d 25 150 = 175"
    unfolding add_d_def by (simp_all add: double_round_Ints)
  have q1: "div_d 240 315 = 857828500451523 / 1125899906842624"
    unfolding div_d_def
    by (subst double_round_scaled_down [where k = 53]) (simp_all add: round_even_def)
  have a: "mul_d (857828500451523 / 1125899906842624) 30 = 3216856876693211 / 140737488355328"
    unfolding mul_d_def
    by (subst double_round_scaled_down [where k = 48]) (simp_all add: round_even_def)
  have q2: "div_d 25 175 = 2573485501354569 / 18014398509481984"
    unfolding div_d_def
    by (subst double_round_scaled_down [where k = 55]) (simp_all add: round_even_def)
  have t: "mul_d (2573485501354569 / 18014398509481984) 15 = 4825285315039817 / 2251799813685248"
    unfolding mul_d_def
    by (subst double_round_scaled_down [where k = 51]) (simp_all add: round_even_def)
  have s: "add_d 5 (3216856876693211 / 140737488355328) = 3920544318469851 / 140737488355328"
    unfolding add_d_def
    by (subst double_round_scaled_down [where k = 48]) (simp_all add: round_even_def)
  have u: "add_d (3920544318469851 / 140737488355328) (4825285315039817 / 2251799813685248) =
      8444249301319679 / 281474976710656"
    unfolding add_d_def
    by (subst double_round_scaled_down [where k = 48]) (simp_all add: round_even_def)
  have "pursuit (calculatePursuit ?bs cs) =
      Math_floor (add_d (add_d 5 (mul_d (div_d 240 (add_d 240 75)) 30))
                        (mul_d (div_d 25 (add_d 25 150)) 15))"
    unfolding calculatePursuit_def Let_def stats by simp
  also have "\<dots> = Math_floor (8444249301319679 / 281474976710656)"
    unfolding sums q1 a q2 t s u ..
  also have "\<dots> = 29" by (simp add: Math_floor_def)
  finally show ?thesis .
qed

section \<open>Rolling a critical hit\<close>

lemma rollCriticalHit_unfold:
  fixes cs rs
  defines "c \<equiv> critChance cs" and "t \<equiv> critTiers cs"
  defines "tO \<equiv> threshold (omega t)" and "tM \<equiv> threshold (mega t)"
    and "tS \<equiv> threshold (super t)" and "tR \<equiv> threshold (regular t)"
  defines "iM \<equiv> (if tO \<le> c then 2 else 1 :: nat)"
  defines "iS \<equiv> (if tM \<le> c then Suc iM else iM)"
  defines "iE \<equiv> (if tS \<le> c then Suc iS else iS)"
  shows "rollCriticalHit cs rs =
    (if min c 1 < rs !! 0 then (''normal'', sdrop 1 rs)
     else if tO \<le> c \<and> rs !! 1 \<le> tierChance c tO tM then (''omega'', sdrop 2 rs)
     else if tM \<le> c \<and> rs !! iM \<le> tierChance c tM tS then (''mega'', sdrop (Suc iM) rs)
     else if tS \<le> c \<and> rs !! iS \<le> tierChance c tS tR then (''super'', sdrop (Suc iS) rs)
     else (''regular'', sdrop iE rs))"
  unfolding c_def t_def tO_def tM_def tS_def tR_def iM_def iS_def iE_def
  by (simp add: rollCriticalHit_def Math_random_def Let_def tierChance_def eval_nat_numeral)

lemma thresholds_updateAll:
  "map (\<lambda>tier. threshold (tier (critTiers (combat_updateAll bs cs)))) [normal, regular, super, mega, omega] =
   map (\<lambda>tier. threshold (tier (critTiers cs))) [normal, regular, super, mega, omega]"
  by (simp add: combat_updateAll_def calculateCritDamage_def
      calculateEnergyCritDamage_def calculateKnockback_def calculatePursuit_def
      calculateCritChance_def calculateEvasion_def calculateAccuracy_def Let_def)

text \<open>The doubles behind the literals \<open>1.01\<close>, \<open>2.01\<close>, \<open>3.01\<close> and \<open>0.01\<close>.\<close>

lemma double_1_01: "double_round 1.01 = 4548635623644201 / 4503599627370496"
  by (subst double_round_scaled_down [where k = 52]) (simp_all add: round_even_def)

lemma double_2_01: "double_round 2.01 = 1131529406376837 / 562949953421312"
  by (subst double_round_scaled_down [where k = 51]) (simp_all add: round_even_def)

lemma double_3_01: "double_round 3.01 = 1694479359798149 / 562949953421312"
  by (subst double_round_scaled_down [where k = 51]) (simp_all add: round_even_def)

lemma double_0_01: "double_round 0.01 = 5764607523034235 / 576460752303423488"
  by (subst double_round_scaled_down [where k = 59]) (simp_all add: round_even_def)

lemmas threshold_doubles = double_1_01 double_2_01 double_3_01 double_0_01

text \<open>
  The differences of the constructor's thresholds in doubles: \<open>3.01 - 2.01\<close> is 1,
  \<open>2.01 - 1.01\<close> is \<open>1 - 2^-52\<close> and \<open>1.01 - 1\<close> is \<open>0.010000000000000009\<close>.
\<close>

lemma difference_omega_mega:
  "sub_d (1694479359798149 / 562949953421312) (1131529406376837 / 562949953421312) = 1"
  unfolding sub_d_def
  by (subst double_round_scaled_down [where k = 52]) (simp_all add: round_even_def)

lemma difference_mega_super:
  "sub_d (1131529406376837 / 562949953421312) (4548635623644201 / 4503599627370496) =
     4503599627370495 / 4503599627370496"
  unfolding sub_d_def
  by (subst double_round_scaled_down [where k = 53]) (simp_all add: round_even_def)

lemma difference_super_regular:
  "sub_d (4548635623644201 / 4503599627370496) 1 = 45035996273705 / 4503599627370496"
  unfolding sub_d_def
  by (subst double_round_scaled_down [where k = 59]) (simp_all add: round_even_def)

lemmas threshold_differences = difference_omega_mega difference_mega_super difference_super_regular

lemma initialCritTiers_thresholds:
  "threshold (regular initialCritTiers) = 1"
  "threshold (super initialCritTiers) = 4548635623644201 / 4503599627370496"
  "threshold (mega initialCritTiers) = 1131529406376837 / 562949953421312"
  "threshold (omega initialCritTiers) = 1694479359798149 / 562949953421312"
  unfolding initialCritTiers_def threshold_doubles by simp_all

lemma updateAll_thresholds:
  "threshold (regular (critTiers (combat_updateAll bs cs))) = threshold (regular (critTiers cs))"
  "threshold (super (critTiers (combat_updateAll bs cs))) = threshold (super (critTiers cs))"
  "threshold (mega (critTiers (combat_updateAll bs cs))) = threshold (mega (critTiers cs))"
  "threshold (omega (critTiers (combat_updateAll bs cs))) = threshold (omega (critTiers cs))"
  using thresholds_updateAll [of bs cs] by simp_all

text \<open>Every constructed \<open>CharacterCombatStats\<close> object has its tiers apart.\<close>

lemma tiersApart_new:
  "\<exists>cs. CharacterCombatStats_new (Some a) (Some bs) = Inr cs \<and> tiersApart cs"
  unfolding CharacterCombatStats_new_def tiersApart_def Let_def
  by (simp add: updateAll_thresholds initialCritTiers_thresholds threshold_differences)

text \<open>
  C1. Let \<open>c\<close> be the crit chance and \<open>rs\<close> the rolls the random source will deliver, in
  order. \<open>rollCriticalHit\<close> returns \<open>normal\<close> exactly when the first roll is greater than
  \<open>min(c, 1)\<close>. Otherwise it checks omega, mega and super in this order; a tier whose
  threshold is above \<open>c\<close> is skipped without a draw, a checked tier takes the next roll
  and is returned exactly when that roll is at most
  \<open>min((c - threshold + 0.01) / (threshold - next lower threshold), 1)\<close>, computed in the
  code's doubles; \<open>regular\<close> is returned exactly when every check fails or is skipped. The
  random source afterwards has lost exactly the rolls drawn.
\<close>

theorem rollCriticalHit_tiers:
  assumes "tiersApart cs"
  shows
    "(let c = critChance cs; t = critTiers cs;
          pOmega = tierChance c (threshold (omega t)) (threshold (mega t));
          pMega = tierChance c (threshold (mega t)) (threshold (super t));
          pSuper = tierChance c (threshold (super t)) (threshold (regular t));
          iMega = (if threshold (omega t) \<le> c then 2 else 1);
          iSuper = (if threshold (mega t) \<le> c then Suc iMega else iMega);
          iEnd = (if threshold (super t) \<le> c then Suc iSuper else iSuper);
          crit = (\<not> min c 1.0 < rs !! 0);
          isOmega = (threshold (omega t) \<le> c \<and> rs !! 1 \<le> pOmega);
          isMega = (threshold (mega t) \<le> c \<and> rs !! iMega \<le> pMega);
          isSuper = (threshold (super t) \<le> c \<and> rs !! iSuper \<le> pSuper);
          tier = fst (rollCriticalHit cs rs)
      in (tier = ''normal'' \<longleftrightarrow> \<not> crit) \<and>
         (tier = ''omega'' \<longleftrightarrow> crit \<and> isOmega) \<and>
         (tier = ''mega'' \<longleftrightarrow> crit \<and> \<not> isOmega \<and> isMega) \<and>
         (tier = ''super'' \<longleftrightarrow> crit \<and> \<not> isOmega \<and> \<not> isMega \<and> isSuper) \<and>
         (tier = ''regular'' \<longleftrightarrow> crit \<and> \<not> isOmega \<and> \<not> isMega \<and> \<not> isSuper) \<and>
         snd (rollCriticalHit cs rs) =
           sdrop (if \<not> crit then 1 else if isOmega then 2 else if isMega then Suc iMega
                  else if isSuper then Suc iSuper else iEnd) rs)"
  unfolding Let_def rollCriticalHit_unfold by (simp add: eval_nat_numeral)

text \<open>
  TEC 144 gives the crit chance \<open>0.05 + 144 / 150\<close>, which in doubles is the double of
  \<open>1.01\<close>, the super threshold itself. The hit is critical (first roll 1/4), omega and
  mega are skipped, and the super check draws the second roll against the chance
  \<open>0.01 / (1.01 - 1)\<close>, in doubles \<open>1 - 2^-50\<close>: the roll \<open>1 - 2^-51\<close> fails it and the hit
  is \<open>regular\<close>, the roll 1/2 passes and the hit is \<open>super\<close>; two rolls are drawn.
\<close>

theorem rollCriticalHit_tiers_witness:
  "tiersApart
     (combat_updateAll ((CharacterBaseStats_new emptyBaseStatsConfig)\<lparr>stat_tec := 144\<rparr>)
        \<lparr>accuracy = 0, evasion = 0, critChance = 0, critDamage = 0, energyCritDamage = 0,
         critTiers = initialCritTiers, knockback = 0, pursuit = 0\<rparr>) \<and>
   rollCriticalHit
     (combat_updateAll ((CharacterBaseStats_new emptyBaseStatsConfig)\<lparr>stat_tec := 144\<rparr>)
        \<lparr>accuracy = 0, evasion = 0, critChance = 0, critDamage = 0, energyCritDamage = 0,
         critTiers = initialCritTiers, knockback = 0, pursuit = 0\<rparr>)
     (1 / 4 ## (1 - 1 / 2 ^ 51) ## sconst 0) = (''regular'', sconst 0) \<and>
   rollCriticalHit
     (combat_updateAll ((CharacterBaseStats_new emptyBaseStatsConfig)\<lparr>stat_tec := 144\<rparr>)
        \<lparr>accuracy = 0, evasion = 0, critChance = 0, critDamage = 0, energyCritDamage = 0,
         critTiers = initialCritTiers, knockback = 0, pursuit = 0\<rparr>)
     (1 / 4 ## 1 / 2 ## sconst 0) = (''super'', sconst 0)"
proof -
  let ?bs = "(CharacterBaseStats_new emptyBaseStatsConfig)\<lparr>stat_tec := 144\<rparr>"
  let ?cs = "combat_updateAll ?bs
        \<lparr>accuracy = 0, evasion = 0, critChance = 0, critDamage = 0, energyCritDamage = 0,
         critTiers = initialCritTiers, knockback = 0, pursuit = 0\<rparr>"
  let ?fail = "1 / 4 ## (1 - 1 / 2 ^ 51) ## sconst (0::real)"
  let ?pass = "1 / 4 ## 1 / 2 ## sconst (0::real)"
  have ths: "threshold (regular (critTiers ?cs)) = 1"
    "threshold (super (critTiers ?cs)) = 4548635623644201 / 4503599627370496"
    "threshold (mega (critTiers ?cs)) = 1131529406376837 / 562949953421312"
    "threshold (omega (critTiers ?cs)) = 1694479359798149 / 562949953421312"
    by (simp_all add: updateAll_thresholds initialCritTiers_thresholds)
  have apart: "tiersApart ?cs"
    unfolding tiersApart_def Let_def ths by (simp add: threshold_differences)
  have c0: "critChance ?cs = add_d (double_round 0.05) (div_d 144 150)"
    by (simp add: combat_updateAll_def calculateCritDamage_def
      calculateEnergyCritDamage_def calculateKnockback_def calculatePursuit_def
      calculateCritChance_def calculateEvasion_def calculateAccuracy_def Let_def getStat_key)
  have e1: "double_round 0.05 = 3602879701896397 / 72057594037927936"
    by (subst double_round_scaled_down [where k = 57]) (simp_all add: round_even_def)
  have e2: "div_d 144 150 = 1080863910568919 / 1125899906842624"
    unfolding div_d_def
    by (subst double_round_scaled_down [where k = 53]) (simp_all add: round_even_def)
  have e3: "add_d (3602879701896397 / 72057594037927936) (1080863910568919 / 1125899906842624) =
      4548635623644201 / 4503599627370496"
    unfolding add_d_def
    by (subst double_round_scaled_down [where k = 52]) (simp_all add: round_even_def)
  have c: "critChance ?cs = 4548635623644201 / 4503599627370496"
    unfolding c0 e1 e2 e3 ..
  have p1: "sub_d (4548635623644201 / 4503599627370496) (4548635623644201 / 4503599627370496) = 0"
    by (simp add: sub_d_def double_round_def)
  have p2: "add_d 0 (5764607523034235 / 576460752303423488) = 5764607523034235 / 576460752303423488"
    unfolding add_d_def
    by (subst double_round_scaled_down [where k = 59]) (simp_all add: round_even_def)
  have p3: "div_d (5764607523034235 / 576460752303423488) (45035996273705 / 4503599627370496) =
      1125899906842623 / 1125899906842624"
    unfolding div_d_def
    by (subst double_round_scaled_down [where k = 53]) (simp_all add: round_even_def)
  have p: "tierChance (4548635623644201 / 4503599627370496)
             (4548635623644201 / 4503599627370496) 1 = 1125899906842623 / 1125899906842624"
    unfolding tierChance_def threshold_doubles threshold_differences p1 p2 p3 by simp
  have rolls: "?fail !! 0 = 1 / 4" "?fail !! 1 = 1 - 1 / 2 ^ 51" "sdrop 2 ?fail = sconst 0"
    "?pass !! 0 = 1 / 4" "?pass !! 1 = 1 / 2" "sdrop 2 ?pass = sconst 0"
    by (simp_all add: eval_nat_numeral)
  from rollCriticalHit_tiers [OF apart, of ?fail]
  have "fst (rollCriticalHit ?cs ?fail) = ''regular'' \<and>
        snd (rollCriticalHit ?cs ?fail) = sdrop 2 ?fail"
    unfolding Let_def ths c p rolls by (simp add: rolls eval_nat_numeral)
  then have 1: "rollCriticalHit ?cs ?fail = (''regular'', sconst 0)"
    unfolding rolls by (simp add: prod_eq_iff)
  from rollCriticalHit_tiers [OF apart, of ?pass]
  have "fst (rollCriticalHit ?cs ?pass) = ''super'' \<and>
        snd (rollCriticalHit ?cs ?pass) = sdrop 2 ?pass"
    unfolding Let_def ths c p rolls by (simp add: rolls eval_nat_numeral)
  then have 2: "rollCriticalHit ?cs ?pass = (''super'', sconst 0)"
    unfolding rolls by (simp add: prod_eq_iff)
  show ?thesis using apart 1 2 by simp
qed

text \<open>
  With TEC 339 the crit chance is the double below 2.31 and the mega chance the double
  below 0.31: a mega roll of 0.31 fails, and the third roll decides the super check.
\<close>

lemma rollCriticalHit_tec_339:
  "rollCriticalHit
     (combat_updateAll ((CharacterBaseStats_new emptyBaseStatsConfig)\<lparr>stat_tec := 339\<rparr>)
        \<lparr>accuracy = 0, evasion = 0, critChance = 0, critDamage = 0, energyCritDamage = 0,
         critTiers = initialCritTiers, knockback = 0, pursuit = 0\<rparr>)
     (0 ## double_round 0.31 ## 0 ## sconst 1) = (''super'', sconst 1)"
proof -
  let ?bs = "(CharacterBaseStats_new emptyBaseStatsConfig)\<lparr>stat_tec := 339\<rparr>"
  let ?cs = "combat_updateAll ?bs
        \<lparr>accuracy = 0, evasion = 0, critChance = 0, critDamage = 0, energyCritDamage = 0,
         critTiers = initialCritTiers, knockback = 0, pursuit = 0\<rparr>"
  have r: "double_round 0.31 = 5584463537939415 / 18014398509481984"
    by (subst double_round_scaled_down [where k = 54]) (simp_all add: round_even_def)
  let ?rolls = "0 ## 5584463537939415 / 18014398509481984 ## 0 ## sconst (1::real)"
  have ths: "threshold (regular (critTiers ?cs)) = 1"
    "threshold (super (critTiers ?cs)) = 4548635623644201 / 4503599627370496"
    "threshold (mega (critTiers ?cs)) = 1131529406376837 / 562949953421312"
    "threshold (omega (critTiers ?cs)) = 1694479359798149 / 562949953421312"
    by (simp_all add: updateAll_thresholds initialCritTiers_thresholds)
  have c0: "critChance ?cs = add_d (double_round 0.05) (div_d 339 150)"
    by (simp add: combat_updateAll_def calculateCritDamage_def
      calculateEnergyCritDamage_def calculateKnockback_def calculatePursuit_def
      calculateCritChance_def calculateEvasion_def calculateAccuracy_def Let_def getStat_key)
  have e1: "double_round 0.05 = 3602879701896397 / 72057594037927936"
    by (subst double_round_scaled_down [where k = 57]) (simp_all add: round_even_def)
  have e2: "div_d 339 150 = 1272266894732165 / 562949953421312"
    unfolding div_d_def
    by (subst double_round_scaled_down [where k = 51]) (simp_all add: round_even_def)
  have e3: "add_d (3602879701896397 / 72057594037927936) (1272266894732165 / 562949953421312) =
      2600828784806461 / 1125899906842624"
    unfolding add_d_def
    by (subst double_round_scaled_down [where k = 51]) (simp_all add: round_even_def)
  have c: "critChance ?cs = 2600828784806461 / 1125899906842624"
    unfolding c0 e1 e2 e3 ..
  have g1: "sub_d (2600828784806461 / 1125899906842624) (1131529406376837 / 562949953421312) =
      337769972052787 / 1125899906842624"
    unfolding sub_d_def
    by (subst double_round_scaled_down [where k = 54]) (simp_all add: round_even_def)
  have g2: "add_d (337769972052787 / 1125899906842624) (5764607523034235 / 576460752303423488) =
      1396115884484853 / 4503599627370496"
    unfolding add_d_def
    by (subst double_round_scaled_down [where k = 54]) (simp_all add: round_even_def)
  have g3: "div_d (1396115884484853 / 4503599627370496) (4503599627370495 / 4503599627370496) =
      5584463537939413 / 18014398509481984"
    unfolding div_d_def
    by (subst double_round_scaled_down [where k = 54]) (simp_all add: round_even_def)
  have pm: "tierChance (2600828784806461 / 1125899906842624)
             (1131529406376837 / 562949953421312) (4548635623644201 / 4503599627370496) =
            5584463537939413 / 18014398509481984"
    unfolding tierChance_def threshold_doubles threshold_differences g1 g2 g3 by simp
  have h1: "sub_d (2600828784806461 / 1125899906842624) (4548635623644201 / 4503599627370496) =
      5854679515581643 / 4503599627370496"
    unfolding sub_d_def
    by (subst double_round_scaled_down [where k = 52]) (simp_all add: round_even_def)
  have h2: "add_d (5854679515581643 / 4503599627370496) (5764607523034235 / 576460752303423488) =
      1474928877963837 / 1125899906842624"
    unfolding add_d_def
    by (subst double_round_scaled_down [where k = 52]) (simp_all add: round_even_def)
  have h3: "div_d (1474928877963837 / 1125899906842624) (45035996273705 / 4503599627370496) =
      4609152743636987 / 35184372088832"
    unfolding div_d_def
    by (subst double_round_scaled_down [where k = 45]) (simp_all add: round_even_def)
  have ps: "tierChance (2600828784806461 / 1125899906842624)
             (4548635623644201 / 4503599627370496) 1 = 1"
    unfolding tierChance_def threshold_doubles threshold_differences h1 h2 h3 by simp
  have rolls: "?rolls !! 0 = 0" "?rolls !! 1 = 5584463537939415 / 18014398509481984"
    "?rolls !! 2 = 0" "sdrop 3 ?rolls = sconst 1"
    by (simp_all add: eval_nat_numeral)
  have "rollCriticalHit ?cs ?rolls = (''super'', sconst 1)"
    by (subst rollCriticalHit_unfold) (simp add: ths c pm ps rolls eval_nat_numeral)
  then show ?thesis unfolding r .
qed

section \<open>Gaining experience\<close>

lemma addXP_loop_continue:
  "xpToNextLevel a \<le> xp a \<Longrightarrow> addXP_loop a = addXP_loop (cascadeStep a)"
  by (subst addXP_loop.simps) (simp add: cascadeStep_def)

lemma addXP_loop_stop: "xp a < xpToNextLevel a \<Longrightarrow> addXP_loop a = Some a"
  by (subst addXP_loop.simps) simp

lemma addXP_loop_funpow:
  "(\<forall>k<n. xpToNextLevel ((cascadeStep ^^ k) a) \<le> xp ((cascadeStep ^^ k) a)) \<Longrightarrow>
   addXP_loop a = addXP_loop ((cascadeStep ^^ n) a)"
proof (induction n)
  case 0
  show ?case by simp
next
  case (Suc n)
  then have "addXP_loop a = addXP_loop ((cascadeStep ^^ n) a)" by simp
  also have "\<dots> = addXP_loop (cascadeStep ((cascadeStep ^^ n) a))"
    using Suc.prems by (intro addXP_loop_continue) simp
  finally show ?case by simp
qed

lemma addXP_loop_Some_D:
  assumes "addXP_loop a = Some a'"
  shows "\<exists>n. stopsAfter a n \<and> a' = (cascadeStep ^^ n) a"
proof (rule addXP_loop.raw_induct
    [where P = "\<lambda>a a'. \<exists>n. stopsAfter a n \<and> a' = (cascadeStep ^^ n) a", OF _ assms])
  fix loop :: "CharacterAttributes \<Rightarrow> CharacterAttributes option" and b b'
  assume IH: "\<And>x y. loop x = Some y \<Longrightarrow> \<exists>n. stopsAfter x n \<and> y = (cascadeStep ^^ n) x"
    and eq: "(if xpToNextLevel b \<le> xp b
              then loop (levelUp (b\<lparr>xp := sub_d (xp b) (xpToNextLevel b)\<rparr>)) else Some b) = Some b'"
  show "\<exists>n. stopsAfter b n \<and> b' = (cascadeStep ^^ n) b"
  proof (cases "xpToNextLevel b \<le> xp b")
    case True
    with eq have "loop (cascadeStep b) = Some b'" by (simp add: cascadeStep_def)
    from IH [OF this] obtain n where n: "stopsAfter (cascadeStep b) n"
      "b' = (cascadeStep ^^ n) (cascadeStep b)" by blast
    have "stopsAfter b (Suc n)"
      unfolding stopsAfter_def
    proof (intro conjI allI impI)
      fix k assume "k < Suc n"
      then show "xpToNextLevel ((cascadeStep ^^ k) b) \<le> xp ((cascadeStep ^^ k) b)"
        using True n(1) by (cases k) (auto simp: stopsAfter_def funpow_swap1)
    next
      show "xp ((cascadeStep ^^ Suc n) b) < xpToNextLevel ((cascadeStep ^^ Suc n) b)"
        using n(1) by (simp add: stopsAfter_def funpow_swap1)
    qed
    moreover have "b' = (cascadeStep ^^ Suc n) b" using n(2) by (simp add: funpow_swap1)
    ultimately show ?thesis by blast
  next
    case False
    with eq have "b' = b" by simp
    moreover have "stopsAfter b 0" using False by (simp add: stopsAfter_def)
    ultimately show ?thesis by (intro exI [of _ 0]) simp
  qed
qed

lemma addXP_loop_Some_I:
  assumes "stopsAfter a n"
  shows "addXP_loop a = Some ((cascadeStep ^^ n) a)"
proof -
  have "addXP_loop a = addXP_loop ((cascadeStep ^^ n) a)"
    using assms by (intro addXP_loop_funpow) (simp add: stopsAfter_def)
  also have "\<dots> = Some ((cascadeStep ^^ n) a)"
    using assms by (intro addXP_loop_stop) (simp add: stopsAfter_def)
  finally show ?thesis .
qed

lemma addXP_loop_Some_iff:
  "addXP_loop a = Some a' \<longleftrightarrow> (\<exists>n. stopsAfter a n \<and> a' = (cascadeStep ^^ n) a)"
  using addXP_loop_Some_D [of a a'] addXP_loop_Some_I [of a] by auto

lemma addXP_loop_None:
  assumes "\<And>n. \<not> stopsAfter a n"
  shows "addXP_loop a = None"
proof -
  have "addXP_loop a \<noteq> Some a'" for a'
    using addXP_loop_Some_D [of a a'] assms by blast
  then show ?thesis by (cases "addXP_loop a") auto
qed

text \<open>The double behind the literal \<open>1.2\<close>, and the two fields a pass computes.\<close>

lemma double_1_2: "double_round 1.2 = 5404319552844595 / 4503599627370496"
  by (subst double_round_scaled_down [where k = 52]) (simp_all add: round_even_def)

lemma cascadeStep_xp: "xp (cascadeStep a) = double_round (xp a - xpToNextLevel a)"
  by (simp add: cascadeStep_fields sub_d_def)

lemma cascadeStep_threshold:
  "xpToNextLevel (cascadeStep a) =
     of_int \<lfloor>double_round (xpToNextLevel a * (5404319552844595 / 4503599627370496))\<rfloor>"
  unfolding cascadeStep_fields double_1_2 mul_d_def by simp

lemma Ints_pos_ge_1:
  fixes x :: real
  assumes "x \<in> \<int>" "0 < x"
  shows "1 \<le> x"
proof -
  from assms obtain t :: int where "x = of_int t" "0 < t" by (auto elim: Ints_cases)
  then show ?thesis by simp
qed

lemma threshold_stays_ge_1:
  assumes "1 \<le> xpToNextLevel a"
  shows "1 \<le> xpToNextLevel (cascadeStep a)"
proof -
  have "1 \<le> xpToNextLevel a * (5404319552844595 / 4503599627370496)" using assms by simp
  then have "1 \<le> double_round (xpToNextLevel a * (5404319552844595 / 4503599627370496))"
    by (rule double_round_ge_1)
  then have "1 \<le> \<lfloor>double_round (xpToNextLevel a * (5404319552844595 / 4503599627370496))\<rfloor>"
    by linarith
  then show ?thesis unfolding cascadeStep_threshold by simp
qed

text \<open>
  While the experience is at most \<open>2^53\<close> and the threshold at least 1, the rounded
  difference lies at least 1 below the experience rounded up.
\<close>

lemma xp_drops:
  assumes "1 \<le> xpToNextLevel a" "xpToNextLevel a \<le> xp a" "xp a \<le> 2 ^ 53"
  shows "xp (cascadeStep a) \<le> of_int \<lceil>xp a\<rceil> - 1"
proof (cases "xp a - xpToNextLevel a = 0")
  case True
  have "1 \<le> \<lceil>xp a\<rceil>" using assms by linarith
  then have "(0::real) \<le> of_int \<lceil>xp a\<rceil> - 1" by simp
  then show ?thesis unfolding cascadeStep_xp True by (simp add: double_round_def)
next
  case False
  then have pos: "0 < xp a - xpToNextLevel a" using assms by simp
  have le: "xp a - xpToNextLevel a \<le> of_int (\<lceil>xp a\<rceil> - 1)" using assms by simp linarith
  have "xp a \<le> of_int ((2::int) ^ 53)" using assms by simp
  then have "\<lceil>xp a\<rceil> \<le> 2 ^ 53" by (simp only: ceiling_le_iff)
  then have "\<lceil>xp a\<rceil> - 1 \<le> 2 ^ 53" by simp
  from double_round_le_int [OF pos le this] show ?thesis unfolding cascadeStep_xp by simp
qed


lemma addXP_loop_total:
  assumes "1 \<le> xpToNextLevel a" "xp a \<le> 2 ^ 53"
  shows "\<exists>a'. addXP_loop a = Some a'"
  using assms
proof (induction "nat \<lceil>xp a\<rceil>" arbitrary: a rule: less_induct)
  case less
  show ?case
  proof (cases "xpToNextLevel a \<le> xp a")
    case True
    have d: "xp (cascadeStep a) \<le> of_int \<lceil>xp a\<rceil> - 1"
      using less.prems True by (intro xp_drops)
    then have "\<lceil>xp (cascadeStep a)\<rceil> \<le> \<lceil>xp a\<rceil> - 1" by linarith
    moreover have "1 \<le> \<lceil>xp a\<rceil>" using True less.prems by linarith
    ultimately have m: "nat \<lceil>xp (cascadeStep a)\<rceil> < nat \<lceil>xp a\<rceil>" by linarith
    have "of_int \<lceil>xp a\<rceil> - 1 \<le> xp a" by linarith
    with d less.prems have b: "xp (cascadeStep a) \<le> 2 ^ 53" by linarith
    from less.hyps [OF m threshold_stays_ge_1 [OF less.prems(1)] b]
    show ?thesis using addXP_loop_continue [OF True] by simp
  next
    case False
    then show ?thesis using addXP_loop_stop [of a] by simp
  qed
qed

lemma add_d_le_2_53:
  assumes "x + y \<le> 2 ^ 53"
  shows "add_d x y \<le> 2 ^ 53"
proof (cases "0 < x + y")
  case True
  have "x + y \<le> of_int ((2::int) ^ 53)" using assms by simp
  from double_round_le_int [OF True this] show ?thesis by (simp add: add_d_def)
next
  case False
  then have "x + y \<le> 0" by simp
  from double_round_nonpos [OF this] show ?thesis by (simp add: add_d_def)
qed

lemma addXP_total:
  assumes "xpToNextLevel a \<in> \<int>" "0 < xpToNextLevel a" "xp a + amount \<le> 2 ^ 53"
  shows "\<exists>a'. addXP a amount = Some a'"
proof -
  have "1 \<le> xpToNextLevel (a\<lparr>xp := add_d (xp a) amount\<rparr>)"
    using Ints_pos_ge_1 [OF assms(1,2)] by simp
  moreover have "xp (a\<lparr>xp := add_d (xp a) amount\<rparr>) \<le> 2 ^ 53"
    using add_d_le_2_53 [OF assms(3)] by simp
  ultimately show ?thesis unfolding addXP_def by (rule addXP_loop_total)
qed


text \<open>
  A positive threshold alone does not make the call return. With a threshold of 1/2 the
  first level-up floors the next threshold to 0, the experience stays at 1/2, and the
  loop test \<open>xp \<ge> xpToNextLevel\<close> never fails again.
\<close>

theorem addXP_fractional_threshold_loops:
  "0 < xpToNextLevel
         (CharacterAttributes_new (emptyAttributesConfig\<lparr>cfg_xpToNextLevel := Some (1 / 2)\<rparr>)) \<and>
   addXP (CharacterAttributes_new (emptyAttributesConfig\<lparr>cfg_xpToNextLevel := Some (1 / 2)\<rparr>)) 1
     = None"
proof -
  let ?new = "CharacterAttributes_new (emptyAttributesConfig\<lparr>cfg_xpToNextLevel := Some (1 / 2)\<rparr>)"
  let ?start = "?new\<lparr>xp := add_d (xp ?new) 1\<rparr>"
  have new: "xp ?new = 0" "xpToNextLevel ?new = 1 / 2"
    by (simp_all add: CharacterAttributes_new_def emptyAttributesConfig_def dflt_def Let_def)
  have one: "add_d 0 1 = 1" unfolding add_d_def by (simp add: double_round_Ints)
  have half: "double_round (1 / 2) = 1 / 2"
    by (subst double_round_scaled_down [where k = 53]) (simp_all add: round_even_def)
  have prod: "double_round (5404319552844595 / 9007199254740992) = 5404319552844595 / 9007199254740992"
    by (subst double_round_scaled_down [where k = 53]) (simp_all add: round_even_def)
  have start: "xp ?start = 1" "xpToNextLevel ?start = 1 / 2" using new one by simp_all
  have first: "xp (cascadeStep ?start) = 1 / 2" "xpToNextLevel (cascadeStep ?start) = 0"
    unfolding cascadeStep_xp cascadeStep_threshold start by (simp_all add: half prod)
  have stuck: "xp (cascadeStep b) = 1 / 2 \<and> xpToNextLevel (cascadeStep b) = 0"
    if "xp b = 1 / 2 \<and> xpToNextLevel b = 0" for b
  proof -
    have b: "xp b = 1 / 2" "xpToNextLevel b = 0" using that by simp_all
    have zero: "double_round 0 = 0" by (simp add: double_round_def)
    show ?thesis unfolding cascadeStep_xp cascadeStep_threshold b by (simp add: half zero)
  qed
  have later: "xp ((cascadeStep ^^ Suc n) ?start) = 1 / 2 \<and>
      xpToNextLevel ((cascadeStep ^^ Suc n) ?start) = 0" for n
  proof (induction n)
    case 0
    show ?case using first by simp
  next
    case (Suc n)
    have "(cascadeStep ^^ Suc (Suc n)) ?start = cascadeStep ((cascadeStep ^^ Suc n) ?start)"
      by simp
    then show ?case using stuck [OF Suc] by (simp only:)
  qed
  have "\<not> stopsAfter ?start n" for n
  proof (cases n)
    case 0
    then show ?thesis using start by (simp add: stopsAfter_def)
  next
    case (Suc m)
    then show ?thesis using later [of m] by (simp add: stopsAfter_def)
  qed
  then have "addXP_loop ?start = None" by (rule addXP_loop_None)
  then show ?thesis using new by (simp add: addXP_def)
qed

text \<open>
  C5. \<open>addXP\<close> adds the amount to the experience and then repeats the level-up pass
  (subtract the current threshold; level + 1, five stat points, one skill point, threshold
  := floor(threshold * 1.2), each result rounded to a double) as long as the experience
  reaches the threshold: the call returns a state exactly when some number of passes \<open>n\<close>
  ends the loop, and then it returns the state after these \<open>n\<close> passes, every one of them
  carried out, with the experience below the threshold. With a positive integer threshold
  and an experience total of at most \<open>2^53\<close> the call does return.
\<close>

theorem addXP_cascade:
  "(let a0 = a\<lparr>xp := add_d (xp a) amount\<rparr>
    in (\<forall>a'. addXP a amount = Some a' \<longleftrightarrow>
              (\<exists>n. stopsAfter a0 n \<and> a' = (cascadeStep ^^ n) a0)) \<and>
       (xpToNextLevel a \<in> \<int> \<and> 0 < xpToNextLevel a \<and> xp a + amount \<le> 2 ^ 53 \<longrightarrow>
          (\<exists>n. stopsAfter a0 n \<and> addXP a amount = Some ((cascadeStep ^^ n) a0)))) \<and>
   (\<forall>b. cascadeStep b =
          b\<lparr>xp := sub_d (xp b) (xpToNextLevel b), level := add_d (level b) 1,
            unallocatedStatPoints := add_d (unallocatedStatPoints b) 5,
            skillPoints := add_d (skillPoints b) 1,
            xpToNextLevel := of_int \<lfloor>mul_d (xpToNextLevel b) (double_round 1.2)\<rfloor>\<rparr>)"
proof -
  define a0 where "a0 = a\<lparr>xp := add_d (xp a) amount\<rparr>"
  have iff: "\<forall>a'. addXP a amount = Some a' \<longleftrightarrow>
              (\<exists>n. stopsAfter a0 n \<and> a' = (cascadeStep ^^ n) a0)"
    by (simp add: addXP_def a0_def addXP_loop_Some_iff)
  have tot: "\<exists>n. stopsAfter a0 n \<and> addXP a amount = Some ((cascadeStep ^^ n) a0)"
    if "xpToNextLevel a \<in> \<int>" "0 < xpToNextLevel a" "xp a + amount \<le> 2 ^ 53"
  proof -
    from addXP_total [OF that] obtain a' where "addXP a amount = Some a'" by blast
    then show ?thesis using iff by blast
  qed
  have fields: "\<forall>b. cascadeStep b =
          b\<lparr>xp := sub_d (xp b) (xpToNextLevel b), level := add_d (level b) 1,
            unallocatedStatPoints := add_d (unallocatedStatPoints b) 5,
            skillPoints := add_d (skillPoints b) 1,
            xpToNextLevel := of_int \<lfloor>mul_d (xpToNextLevel b) (double_round 1.2)\<rfloor>\<rparr>"
    by (intro allI) (rule cascadeStep_fields)
  show ?thesis
    unfolding Let_def a0_def [symmetric] using iff tot fields by blast
qed

text \<open>
  A new character (level 1, threshold 100) gaining 350 experience levels up twice in the
  one call: 350 - 100 - 120 = 130 is below the third threshold 144. The products
  \<open>100 * 1.2\<close> and \<open>120 * 1.2\<close> round to the doubles 120 and 144.
\<close>

theorem addXP_cascade_witness:
  "addXP (CharacterAttributes_new emptyAttributesConfig) 350 =
     Some \<lparr>level = 3, xp = 130, xpToNextLevel = 144, race = ''Human'', potential = double_round 0.1,
           potentialCap = double_round 0.1, alignment = ''Neutral'', unallocatedStatPoints = 10,
           skillPoints = 2, baseStats = None\<rparr>"
proof -
  let ?new = "CharacterAttributes_new emptyAttributesConfig"
  let ?start = "?new\<lparr>xp := add_d (xp ?new) 350\<rparr>"
  have ints: "add_d 0 350 = 350" "sub_d 350 100 = 250" "sub_d 250 120 = 130"
    "add_d 1 1 = 2" "add_d 2 1 = 3" "add_d 0 5 = 5" "add_d 5 5 = 10" "add_d 0 1 = 1"
    unfolding add_d_def sub_d_def by (simp_all add: double_round_Ints)
  have m1: "\<lfloor>double_round (100 * (5404319552844595 / 4503599627370496))\<rfloor> = 120"
    by (subst double_round_scaled_down [where k = 46]) (simp_all add: round_even_def)
  have m2: "\<lfloor>double_round (120 * (5404319552844595 / 4503599627370496))\<rfloor> = 144"
    by (subst double_round_scaled_down [where k = 45]) (simp_all add: round_even_def)
  have t0: "xpToNextLevel (cascadeStep b) = 120" if "xpToNextLevel b = 100" for b
    unfolding cascadeStep_threshold that m1 by simp
  have t1: "xpToNextLevel (cascadeStep b) = 144" if "xpToNextLevel b = 120" for b
    unfolding cascadeStep_threshold that m2 by simp
  have rest: "cascadeStep b = b\<lparr>xp := sub_d (xp b) (xpToNextLevel b), level := add_d (level b) 1,
       unallocatedStatPoints := add_d (unallocatedStatPoints b) 5,
       skillPoints := add_d (skillPoints b) 1,
       xpToNextLevel := xpToNextLevel (cascadeStep b)\<rparr>" for b
    by (simp add: cascadeStep_fields)
  have a: "?new = \<lparr>level = 1, xp = 0, xpToNextLevel = 100, race = ''Human'', potential = double_round 0.1,
           potentialCap = double_round 0.1, alignment = ''Neutral'', unallocatedStatPoints = 0,
           skillPoints = 0, baseStats = None\<rparr>"
    by (simp add: CharacterAttributes_new_def emptyAttributesConfig_def dflt_def Race_def
        Alignment_def Let_def)
  have s0: "?start = \<lparr>level = 1, xp = 350, xpToNextLevel = 100, race = ''Human'', potential = double_round 0.1,
           potentialCap = double_round 0.1, alignment = ''Neutral'', unallocatedStatPoints = 0,
           skillPoints = 0, baseStats = None\<rparr>"
    unfolding a by (simp add: ints)
  have s1: "cascadeStep ?start = \<lparr>level = 2, xp = 250, xpToNextLevel = 120, race = ''Human'',
           potential = double_round 0.1, potentialCap = double_round 0.1, alignment = ''Neutral'',
           unallocatedStatPoints = 5, skillPoints = 1, baseStats = None\<rparr>"
    by (subst rest, subst t0) (simp_all add: s0 ints)
  have s2: "cascadeStep (cascadeStep ?start) = \<lparr>level = 3, xp = 130, xpToNextLevel = 144,
           race = ''Human'', potential = double_round 0.1, potentialCap = double_round 0.1, alignment = ''Neutral'',
           unallocatedStatPoints = 10, skillPoints = 2, baseStats = None\<rparr>"
    by (subst rest, subst t1) (simp_all add: s1 ints)
  have e: "(cascadeStep ^^ 2) ?start = cascadeStep (cascadeStep ?start)"
    by (simp only: funpow.simps numeral_2_eq_2 o_apply id_apply)
  have "\<forall>k<2. xpToNextLevel ((cascadeStep ^^ k) ?start) \<le> xp ((cascadeStep ^^ k) ?start)"
  proof (intro allI impI)
    fix k :: nat assume "k < 2"
    then consider "k = 0" | "k = 1" by linarith
    then show "xpToNextLevel ((cascadeStep ^^ k) ?start) \<le> xp ((cascadeStep ^^ k) ?start)"
    proof cases
      case 1
      show ?thesis unfolding 1 funpow_0 s0 by simp
    next
      case 2
      have "(cascadeStep ^^ 1) ?start = cascadeStep ?start" by simp
      then show ?thesis unfolding 2 s1 by simp
    qed
  qed
  moreover have "xp ((cascadeStep ^^ 2) ?start) < xpToNextLevel ((cascadeStep ^^ 2) ?start)"
    unfolding e s2 by simp
  ultimately have s: "stopsAfter ?start 2" unfolding stopsAfter_def by (rule conjI)
  have "\<exists>n. stopsAfter ?start n \<and>
      \<lparr>level = 3, xp = 130, xpToNextLevel = 144,
           race = ''Human'', potential = double_round 0.1, potentialCap = double_round 0.1, alignment = ''Neutral'',
           unallocatedStatPoints = 10, skillPoints = 2, baseStats = None\<rparr> = (cascadeStep ^^ n) ?start"
    using s e s2 by (intro exI [of _ 2]) (simp only:)
  moreover from addXP_cascade [of ?new 350]
  have "\<forall>a'. addXP ?new 350 = Some a' \<longleftrightarrow> (\<exists>n. stopsAfter ?start n \<and> a' = (cascadeStep ^^ n) ?start)"
    unfolding Let_def by (rule conjunct1 [THEN conjunct1])
  ultimately show ?thesis by (simp only:)
qed




text \<open>Gaining experience touches neither the potential nor its cap.\<close>

lemma cascadeStep_funpow_potential:
  "potential ((cascadeStep ^^ n) a) = potential a \<and>
   potentialCap ((cascadeStep ^^ n) a) = potentialCap a"
  by (induction n) (simp_all add: cascadeStep_fields)

lemma addXP_keeps_potential:
  assumes "addXP a amount = Some a'"
  shows "potential a' = potential a" and "potentialCap a' = potentialCap a"
proof -
  from assms obtain n where "a' = (cascadeStep ^^ n) (a\<lparr>xp := add_d (xp a) amount\<rparr>)"
    unfolding addXP_def using addXP_loop_Some_D by blast
  then show "potential a' = potential a" and "potentialCap a' = potentialCap a"
    using cascadeStep_funpow_potential [of n "a\<lparr>xp := add_d (xp a) amount\<rparr>"] by simp_all
qed

end
